theory Spec2Isabelle
  imports Main "HOL-Library.Multiset" "HOL-Library.AList" "HOL-Library.Sublist"
begin

section \<open>Shared Python values\<close>

text \<open>
  Values that travel through the core as \<open>Any\<close>: handler results and keyword
  arguments are the scalars \<open>None\<close>, booleans, integers and strings. Exceptions are values of \<open>pyexc\<close>; a call that may raise
  returns \<open>pyexc + 'a\<close> with \<open>Inl\<close> for the raise.
\<close>

datatype pyval = PNone | PBool bool | PInt int | PStr string

text \<open>Structured payloads (dictionaries and objects) carried by events.\<close>

datatype pydata = Val pyval | Dict "(string \<times> pydata) list" | Obj string "(string \<times> pydata) list"

datatype pyexc =
    RuntimeError string
  | ValueError string
  | KeyError string
  | TypeError string
  | OtherError string

section \<open>Event bus (src/mem0\_mcp/core/event\_bus.py)\<close>

datatype EventPriority = HIGHEST | HIGH | NORMAL | LOW | LOWEST

text \<open>\<open>EventPriority.value\<close>.\<close>

fun priority_value :: "EventPriority \<Rightarrow> nat" where
  "priority_value HIGHEST = 0"
| "priority_value HIGH = 25"
| "priority_value NORMAL = 50"
| "priority_value LOW = 75"
| "priority_value LOWEST = 100"

text \<open>
  \<open>Event\<close>: the timestamp and the \<open>event_id\<close> entry that \<open>__post_init__\<close> writes
  into the metadata are left out; no modelled operation reads them.
\<close>

record Event =
  ev_name :: string
  ev_data :: "(string \<times> pydata) list"
  ev_source :: "string option"
  ev_metadata :: "(string \<times> pydata) list"

text \<open>
  Callables are Python objects compared by identity, so a handler record holds the
  identity (a number) of its callback and of its filter. What a callable does when it
  is called is looked up in a \<open>callables\<close> environment: \<open>call\<close> is the callback's
  result or the exception it raises, \<open>test\<close> the filter's verdict, \<open>mw\<close> a
  middleware's returned event (\<open>None\<close> cancels), and \<open>dead\<close> says that the referent of
  a weak reference has been collected. Callables are taken to be functions of the
  event alone.
\<close>

record callables =
  call :: "nat \<Rightarrow> Event \<Rightarrow> pyexc + pyval"
  test :: "nat \<Rightarrow> Event \<Rightarrow> bool"
  mw :: "nat \<Rightarrow> Event \<Rightarrow> Event option"
  dead :: "nat \<Rightarrow> bool"

record EventHandler =
  callback :: nat
  priority :: EventPriority
  filter_h :: "nat option"
  once :: bool
  weak :: bool

record EventBus =
  handlers :: "string \<Rightarrow> EventHandler list option"
  history :: "Event list"
  history_size :: int
  middleware :: "nat list"
  event_queue :: "Event option list"
  running :: bool

text \<open>\<open>EventHandler.matches\<close> and \<open>EventHandler.invoke\<close>.\<close>

definition matches :: "callables \<Rightarrow> EventHandler \<Rightarrow> Event \<Rightarrow> bool" where
  "matches env h event =
     (case filter_h h of Some f \<Rightarrow> test env f event | None \<Rightarrow> True)"

definition invoke :: "callables \<Rightarrow> EventHandler \<Rightarrow> Event \<Rightarrow> pyexc + pyval" where
  "invoke env h event =
     (if weak h \<and> dead env (callback h) then Inr PNone
      else call env (callback h) event)"

text \<open>
  \<open>EventBus.subscribe\<close>. The loop over \<open>enumerate(handlers)\<close> keeps the default
  \<open>len(handlers)\<close> unless it meets a handler of strictly larger priority value, where
  it stops; \<open>list.insert\<close> then places the new handler at that index.
\<close>

fun find_insert_idx :: "nat \<Rightarrow> nat \<Rightarrow> nat \<Rightarrow> EventHandler list \<Rightarrow> nat" where
  "find_insert_idx insert_idx p i [] = insert_idx"
| "find_insert_idx insert_idx p i (h # hs) =
     (if priority_value (priority h) > p then i
      else find_insert_idx insert_idx p (Suc i) hs)"

definition list_insert :: "nat \<Rightarrow> 'a \<Rightarrow> 'a list \<Rightarrow> 'a list" where
  "list_insert i x xs = take i xs @ x # drop i xs"

definition subscribe ::
  "string \<Rightarrow> nat \<Rightarrow> EventPriority \<Rightarrow> nat option \<Rightarrow> bool \<Rightarrow> bool \<Rightarrow> EventBus \<Rightarrow> EventBus" where
  "subscribe event_name handler prio flt onc wk bus =
     (let hs = (case handlers bus event_name of None \<Rightarrow> [] | Some l \<Rightarrow> l);
          event_handler = \<lparr>callback = handler, priority = prio, filter_h = flt,
                           once = onc, weak = wk\<rparr>;
          insert_idx = find_insert_idx (length hs) (priority_value prio) 0 hs
      in bus\<lparr>handlers := (handlers bus)(event_name \<mapsto> list_insert insert_idx event_handler hs)\<rparr>)"

text \<open>\<open>EventBus._add_to_history\<close>: append, then drop the oldest entry when over capacity.\<close>

definition add_to_history :: "Event \<Rightarrow> EventBus \<Rightarrow> EventBus" where
  "add_to_history event bus =
     (let h = history bus @ [event]
      in bus\<lparr>history := (if int (length h) > history_size bus then tl h else h)\<rparr>)"

text \<open>The middleware loop of \<open>emit\<close>: each middleware replaces the event; \<open>None\<close> cancels.\<close>

fun apply_middleware :: "callables \<Rightarrow> nat list \<Rightarrow> Event \<Rightarrow> Event option" where
  "apply_middleware env [] event = Some event"
| "apply_middleware env (m # ms) event =
     (case mw env m event of None \<Rightarrow> None | Some event' \<Rightarrow> apply_middleware env ms event')"

text \<open>
  The handler loop of \<open>emit\<close>, with its two accumulators \<open>results\<close> and
  \<open>handlers_to_remove\<close>. The third accumulator is a ghost log that the source does not
  keep: every call of \<open>handler.invoke\<close> with what it returned or raised, in call order.
\<close>

fun execute_handlers ::
  "callables \<Rightarrow> Event \<Rightarrow> EventHandler list \<Rightarrow>
   pyval list \<times> EventHandler list \<times> (EventHandler \<times> (pyexc + pyval)) list \<Rightarrow>
   pyval list \<times> EventHandler list \<times> (EventHandler \<times> (pyexc + pyval)) list" where
  "execute_handlers env event [] acc = acc"
| "execute_handlers env event (h # hs) (results, handlers_to_remove, invoked) =
     (if weak h \<and> dead env (callback h)
      then execute_handlers env event hs (results, handlers_to_remove @ [h], invoked)
      else if \<not> matches env h event
      then execute_handlers env event hs (results, handlers_to_remove, invoked)
      else (case invoke env h event of
              Inr result \<Rightarrow>
                execute_handlers env event hs
                  (results @ [result],
                   (if once h then handlers_to_remove @ [h] else handlers_to_remove),
                   invoked @ [(h, Inr result)])
            | Inl e \<Rightarrow>
                execute_handlers env event hs
                  (results, handlers_to_remove, invoked @ [(h, Inl e)])))"

text \<open>\<open>self._handlers[event_name].remove(handler)\<close> for each handler to remove.\<close>

fun remove_handlers :: "EventHandler list \<Rightarrow> EventHandler list \<Rightarrow> EventHandler list" where
  "remove_handlers [] hs = hs"
| "remove_handlers (r # rs) hs = remove_handlers rs (remove1 r hs)"

text \<open>
  \<open>EventBus.emit\<close>: returns the results, the ghost log of invocations and the bus
  afterwards. The handler list is looked up under the \<open>event_name\<close> argument, also
  when a middleware has renamed the event.
\<close>

definition emit ::
  "callables \<Rightarrow> string \<Rightarrow> (string \<times> pydata) list \<Rightarrow> string option \<Rightarrow> (string \<times> pydata) list \<Rightarrow>
   EventBus \<Rightarrow> pyval list \<times> (EventHandler \<times> (pyexc + pyval)) list \<times> EventBus" where
  "emit env event_name data source metadata bus =
     (let event = \<lparr>ev_name = event_name, ev_data = data, ev_source = source,
                   ev_metadata = metadata\<rparr>;
          bus1 = add_to_history event bus
      in case apply_middleware env (middleware bus1) event of
           None \<Rightarrow> ([], [], bus1)
         | Some event' \<Rightarrow>
             (case handlers bus1 event_name of
                None \<Rightarrow> ([], [], bus1)
              | Some hs \<Rightarrow>
                  (case execute_handlers env event' hs ([], [], []) of
                     (results, handlers_to_remove, invoked) \<Rightarrow>
                       (results, invoked,
                        bus1\<lparr>handlers :=
                          (handlers bus1)(event_name \<mapsto> remove_handlers handlers_to_remove hs)\<rparr>))))"

text \<open>\<open>EventBus.__init__\<close>.\<close>

definition EventBus_init :: "int \<Rightarrow> EventBus" where
  "EventBus_init n =
     \<lparr>handlers = Map.empty, history = [], history_size = n, middleware = [],
      event_queue = [], running = False\<rparr>"

text \<open>
  A sequence of \<open>subscribe\<close> calls, each given as the topic and the handler record the
  call builds from its arguments.
\<close>

fun subscribe_calls :: "(string \<times> EventHandler) list \<Rightarrow> EventBus \<Rightarrow> EventBus" where
  "subscribe_calls [] bus = bus"
| "subscribe_calls ((t, h) # cs) bus =
     subscribe_calls cs (subscribe t (callback h) (priority h) (filter_h h) (once h) (weak h) bus)"












section \<open>Dependency injection container (src/mem0\_mcp/core/dependency\_injection.py)\<close>

text \<open>
  Interfaces are classes, named by their class name. An object is its identity and the
  name of its class. A dictionary is an association list in insertion order:
  \<open>map_of\<close> reads it, \<open>AList.update\<close> is \<open>d[k] = v\<close> and \<open>AList.delete\<close> is
  \<open>del d[k]\<close>.
\<close>

type_synonym iface = string

datatype pyobject = Instance (inst_id: nat) (inst_class: string)

datatype Scope = SINGLETON | REQUEST | TRANSIENT

text \<open>
  A function, lambda or factory: called with the bound keyword arguments it returns a
  new object of some class, or raises.
\<close>

datatype callable = Produces string | Fails pyexc

text \<open>
  A class as \<open>_create_instance\<close> sees it: the parameters of \<open>__init__\<close> after
  \<open>self\<close> (name, annotation when there is one, whether there is a default), whether
  the constructor body raises, and whether there is an \<open>__ainit__\<close> and what it raises.
\<close>

record param =
  p_name :: string
  annotation :: "iface option"
  has_default :: bool

record class_decl =
  c_name :: string
  c_params :: "param list"
  c_init_raises :: "pyexc option"
  c_ainit :: "pyexc option option"

datatype implementation =
    Value pyobject
  | Function callable
  | Class class_decl

record DependencyDefinition =
  d_interface :: iface
  d_implementation :: implementation
  d_scope :: Scope
  d_name :: "string option"
  d_factory :: "callable option"
  d_async_factory :: "callable option"
  d_kwargs :: "(string \<times> pyobject) list"

text \<open>
  The values of \<open>_definitions\<close> are Python lists, which \<open>register\<close> mutates in place
  and \<open>dict.copy\<close> shares. They live in a store of list objects: a container holds the
  address of each list, the world holds the contents. The world also counts the
  objects created so far, which gives each new object its identity, and keeps a ghost
  log, absent from the source, of every entry into \<open>resolve\<close>: the interface asked for
  and the in-progress set at that moment.
\<close>

record world =
  store :: "nat \<Rightarrow> DependencyDefinition list"
  next_addr :: nat
  next_oid :: nat
  resolve_log :: "(iface \<times> iface set) list"

record container =
  definitions :: "(iface \<times> nat) list"
  singletons :: "(iface \<times> pyobject) list"
  resolving :: "iface set"
  request_scope :: "(iface \<times> pyobject) list"

text \<open>\<open>Container.__init__\<close>.\<close>

definition Container_init :: container where
  "Container_init = \<lparr>definitions = [], singletons = [], resolving = {}, request_scope = []\<rparr>"

definition world_init :: world where
  "world_init = \<lparr>store = (\<lambda>a. []), next_addr = 0, next_oid = 0, resolve_log = []\<rparr>"

text \<open>\<open>if name:\<close> holds for a name that is neither \<open>None\<close> nor the empty string.\<close>

definition name_given :: "string option \<Rightarrow> bool" where
  "name_given name = (name \<noteq> None \<and> name \<noteq> Some [])"

text \<open>A new list object with the given contents; the result is its address.\<close>

definition new_list :: "DependencyDefinition list \<Rightarrow> world \<Rightarrow> nat \<times> world" where
  "new_list xs w = (next_addr w, w\<lparr>store := (store w)(next_addr w := xs), next_addr := Suc (next_addr w)\<rparr>)"

text \<open>
  \<open>Container.register\<close>. \<open>classes\<close> gives the class an interface name stands for,
  which is the implementation when none is passed. A list comprehension builds a new
  list; \<open>append\<close> changes the list at the address the dictionary holds.
\<close>

definition register ::
  "(iface \<Rightarrow> class_decl) \<Rightarrow> iface \<Rightarrow> implementation option \<Rightarrow> Scope \<Rightarrow> string option \<Rightarrow>
   callable option \<Rightarrow> callable option \<Rightarrow> (string \<times> pyobject) list \<Rightarrow>
   world \<times> container \<Rightarrow> world \<times> container" where
  "register classes interface impl scope name factory async_factory kwargs wc =
     (case wc of (w, c) \<Rightarrow>
      let definition = \<lparr>d_interface = interface,
                        d_implementation = (case impl of None \<Rightarrow> Class (classes interface) | Some i \<Rightarrow> i),
                        d_scope = scope, d_name = name, d_factory = factory,
                        d_async_factory = async_factory, d_kwargs = kwargs\<rparr>;
          (w1, c1) = (case map_of (definitions c) interface of
                        Some a \<Rightarrow> (w, c)
                      | None \<Rightarrow> (case new_list [] w of
                                   (a, w') \<Rightarrow> (w', c\<lparr>definitions := AList.update interface a (definitions c)\<rparr>)));
          (w2, c2) = (if name_given name
                      then (case map_of (definitions c1) interface of
                              None \<Rightarrow> (w1, c1)
                            | Some a \<Rightarrow>
                                (case new_list (filter (\<lambda>d. d_name d \<noteq> name) (store w1 a)) w1 of
                                   (a', w') \<Rightarrow> (w', c1\<lparr>definitions := AList.update interface a' (definitions c1)\<rparr>)))
                      else (w1, c1))
      in (case map_of (definitions c2) interface of
            None \<Rightarrow> (w2, c2)
          | Some a \<Rightarrow> (w2\<lparr>store := (store w2)(a := store w2 a @ [definition])\<rparr>, c2)))"

text \<open>\<open>Container.register_instance\<close>.\<close>

definition register_instance ::
  "(iface \<Rightarrow> class_decl) \<Rightarrow> iface \<Rightarrow> pyobject \<Rightarrow> world \<times> container \<Rightarrow> world \<times> container" where
  "register_instance classes interface inst wc =
     (case wc of (w, c) \<Rightarrow>
        register classes interface (Some (Value inst)) SINGLETON None None None []
          (w, c\<lparr>singletons := AList.update interface inst (singletons c)\<rparr>))"

text \<open>\<open>Container.unregister\<close>: whether something was removed, and the state afterwards.\<close>

definition unregister :: "iface \<Rightarrow> string option \<Rightarrow> world \<times> container \<Rightarrow> bool \<times> world \<times> container" where
  "unregister interface name wc =
     (case wc of (w, c) \<Rightarrow>
      case map_of (definitions c) interface of
        None \<Rightarrow> (False, w, c)
      | Some a \<Rightarrow>
          (let (removed, w1, c1) =
                 (if name_given name
                  then (case new_list (filter (\<lambda>d. d_name d \<noteq> name) (store w a)) w of
                          (a', w') \<Rightarrow>
                            (length (store w a) > length (store w' a'), w',
                             c\<lparr>definitions := AList.update interface a' (definitions c)\<rparr>))
                  else (store w a \<noteq> [], w, c\<lparr>definitions := AList.delete interface (definitions c)\<rparr>))
           in (removed, w1, c1\<lparr>singletons := AList.delete interface (singletons c1)\<rparr>)))"

text \<open>
  \<open>Container.create_child_container\<close>: \<open>self._definitions.copy()\<close> is a new
  dictionary with the same values, that is, the same list addresses.
\<close>

definition create_child_container :: "container \<Rightarrow> container" where
  "create_child_container c = Container_init\<lparr>definitions := definitions c\<rparr>"

text \<open>The definitions registered for an interface: \<open>self._definitions.get(interface, [])\<close>.\<close>

definition definitions_for :: "world \<times> container \<Rightarrow> iface \<Rightarrow> DependencyDefinition list" where
  "definitions_for wc interface =
     (case wc of (w, c) \<Rightarrow>
        (case map_of (definitions c) interface of None \<Rightarrow> [] | Some a \<Rightarrow> store w a))"

text \<open>The definition \<open>resolve\<close> picks: the first of that name, or the last registered.\<close>

definition select_definition ::
  "iface \<Rightarrow> string option \<Rightarrow> DependencyDefinition list \<Rightarrow> pyexc + DependencyDefinition" where
  "select_definition interface name defs =
     (if defs = [] then Inl (ValueError (''No registration found for '' @ interface))
      else if name_given name
      then (case find (\<lambda>d. d_name d = name) defs of
              None \<Rightarrow> Inl (ValueError (''No registration found for '' @ interface @ '' with name ''
                                         @ (case name of None \<Rightarrow> [] | Some n \<Rightarrow> n)))
            | Some d \<Rightarrow> Inr d)
      else Inr (last defs))"

definition is_ValueError :: "pyexc \<Rightarrow> bool" where
  "is_ValueError e = (case e of ValueError m \<Rightarrow> True | _ \<Rightarrow> False)"

text \<open>Calling a function or factory: a new object, or the exception.\<close>

definition call_callable :: "callable \<Rightarrow> world \<times> container \<Rightarrow> (pyexc + pyobject) \<times> world \<times> container" where
  "call_callable f wc =
     (case wc of (w, c) \<Rightarrow>
        (case f of
           Produces cls \<Rightarrow> (Inr (Instance (next_oid w) cls), w\<lparr>next_oid := Suc (next_oid w)\<rparr>, c)
         | Fails e \<Rightarrow> (Inl e, w, c)))"

text \<open>
  The loop of \<open>_create_instance\<close> over the constructor's parameters. \<open>rec\<close> stands
  for the nested \<open>self.resolve(param.annotation)\<close>; \<open>None\<close> means the recursion did
  not return. Only a \<open>ValueError\<close> of the nested call is caught, and swallowed only
  when the parameter has a default.
\<close>

fun wire_params ::
  "(iface \<Rightarrow> world \<times> container \<Rightarrow> ((pyexc + pyobject) \<times> world \<times> container) option) \<Rightarrow>
   (string \<times> pyobject) list \<Rightarrow> param list \<Rightarrow> (string \<times> pyobject) list \<Rightarrow> world \<times> container \<Rightarrow>
   ((pyexc + (string \<times> pyobject) list) \<times> world \<times> container) option" where
  "wire_params rec kwargs [] resolved_kwargs wc = Some (Inr resolved_kwargs, wc)"
| "wire_params rec kwargs (p # ps) resolved_kwargs wc =
     (case map_of kwargs (p_name p) of
        Some v \<Rightarrow> wire_params rec kwargs ps (AList.update (p_name p) v resolved_kwargs) wc
      | None \<Rightarrow>
          (case annotation p of
             None \<Rightarrow> wire_params rec kwargs ps resolved_kwargs wc
           | Some a \<Rightarrow>
               (case rec a wc of
                  None \<Rightarrow> None
                | Some (Inr v, wc') \<Rightarrow>
                    wire_params rec kwargs ps (AList.update (p_name p) v resolved_kwargs) wc'
                | Some (Inl e, wc') \<Rightarrow>
                    (if is_ValueError e
                     then (if has_default p then wire_params rec kwargs ps resolved_kwargs wc'
                           else Some (Inl e, wc'))
                     else Some (Inl e, wc')))))"

text \<open>
  \<open>cls(**resolved_kwargs)\<close> followed by \<open>__ainit__\<close>: Python raises \<open>TypeError\<close>
  when a parameter without default got no argument.
\<close>

definition construct ::
  "class_decl \<Rightarrow> (string \<times> pyobject) list \<Rightarrow> world \<times> container \<Rightarrow> (pyexc + pyobject) \<times> world \<times> container" where
  "construct cls resolved_kwargs wc =
     (case wc of (w, c) \<Rightarrow>
        if filter (\<lambda>p. \<not> has_default p \<and> map_of resolved_kwargs (p_name p) = None) (c_params cls) \<noteq> []
        then (Inl (TypeError (c_name cls @ ''.__init__() missing required argument'')), w, c)
        else (case c_init_raises cls of
                Some e \<Rightarrow> (Inl e, w, c)
              | None \<Rightarrow>
                  (case c_ainit cls of
                     Some (Some e) \<Rightarrow> (Inl e, w\<lparr>next_oid := Suc (next_oid w)\<rparr>, c)
                   | _ \<Rightarrow> (Inr (Instance (next_oid w) (c_name cls)),
                           w\<lparr>next_oid := Suc (next_oid w)\<rparr>, c))))"

text \<open>\<open>Container._create_instance\<close>.\<close>

definition create_instance ::
  "(iface \<Rightarrow> world \<times> container \<Rightarrow> ((pyexc + pyobject) \<times> world \<times> container) option) \<Rightarrow>
   DependencyDefinition \<Rightarrow> world \<times> container \<Rightarrow> ((pyexc + pyobject) \<times> world \<times> container) option" where
  "create_instance rec definition wc =
     (case d_implementation definition of
        Value v \<Rightarrow> Some (Inr v, wc)
      | impl \<Rightarrow>
          (case d_async_factory definition of
             Some f \<Rightarrow> Some (call_callable f wc)
           | None \<Rightarrow>
               (case d_factory definition of
                  Some f \<Rightarrow> Some (call_callable f wc)
                | None \<Rightarrow>
                    (case impl of
                       Function f \<Rightarrow> Some (call_callable f wc)
                     | Class cls \<Rightarrow>
                         (case wire_params rec (d_kwargs definition) (c_params cls) [] wc of
                            None \<Rightarrow> None
                          | Some (Inl e, wc') \<Rightarrow> Some (Inl e, wc')
                          | Some (Inr resolved_kwargs, wc') \<Rightarrow> Some (construct cls resolved_kwargs wc'))
                     | Value v \<Rightarrow> Some (Inr v, wc)))))"

text \<open>\<open>_resolve_singleton\<close>, \<open>_resolve_request\<close> and \<open>_resolve_transient\<close>.\<close>

definition resolve_singleton ::
  "(iface \<Rightarrow> world \<times> container \<Rightarrow> ((pyexc + pyobject) \<times> world \<times> container) option) \<Rightarrow>
   DependencyDefinition \<Rightarrow> world \<times> container \<Rightarrow> ((pyexc + pyobject) \<times> world \<times> container) option" where
  "resolve_singleton rec definition wc =
     (case map_of (singletons (snd wc)) (d_interface definition) of
        Some inst \<Rightarrow> Some (Inr inst, wc)
      | None \<Rightarrow>
          (case create_instance rec definition wc of
             None \<Rightarrow> None
           | Some (Inl e, wc') \<Rightarrow> Some (Inl e, wc')
           | Some (Inr inst, w', c') \<Rightarrow>
               Some (Inr inst, w',
                     c'\<lparr>singletons := AList.update (d_interface definition) inst (singletons c')\<rparr>)))"

definition resolve_request ::
  "(iface \<Rightarrow> world \<times> container \<Rightarrow> ((pyexc + pyobject) \<times> world \<times> container) option) \<Rightarrow>
   DependencyDefinition \<Rightarrow> world \<times> container \<Rightarrow> ((pyexc + pyobject) \<times> world \<times> container) option" where
  "resolve_request rec definition wc =
     (case map_of (request_scope (snd wc)) (d_interface definition) of
        Some inst \<Rightarrow> Some (Inr inst, wc)
      | None \<Rightarrow>
          (case create_instance rec definition wc of
             None \<Rightarrow> None
           | Some (Inl e, wc') \<Rightarrow> Some (Inl e, wc')
           | Some (Inr inst, w', c') \<Rightarrow>
               Some (Inr inst, w',
                     c'\<lparr>request_scope := AList.update (d_interface definition) inst (request_scope c')\<rparr>)))"

definition resolve_transient ::
  "(iface \<Rightarrow> world \<times> container \<Rightarrow> ((pyexc + pyobject) \<times> world \<times> container) option) \<Rightarrow>
   DependencyDefinition \<Rightarrow> world \<times> container \<Rightarrow> ((pyexc + pyobject) \<times> world \<times> container) option" where
  "resolve_transient rec definition wc = create_instance rec definition wc"

text \<open>The body of the \<open>try\<close> block of \<open>resolve\<close>.\<close>

definition resolve_body ::
  "(iface \<Rightarrow> world \<times> container \<Rightarrow> ((pyexc + pyobject) \<times> world \<times> container) option) \<Rightarrow>
   iface \<Rightarrow> string option \<Rightarrow> world \<times> container \<Rightarrow> ((pyexc + pyobject) \<times> world \<times> container) option" where
  "resolve_body rec interface name wc =
     (case select_definition interface name (definitions_for wc interface) of
        Inl e \<Rightarrow> Some (Inl e, wc)
      | Inr definition \<Rightarrow>
          (case d_scope definition of
             SINGLETON \<Rightarrow> resolve_singleton rec definition wc
           | REQUEST \<Rightarrow> resolve_request rec definition wc
           | TRANSIENT \<Rightarrow> resolve_transient rec definition wc))"

definition circular_prefix :: string where
  "circular_prefix = ''Circular dependency detected for ''"

definition circular :: "iface \<Rightarrow> pyexc" where
  "circular interface = RuntimeError (circular_prefix @ interface)"

text \<open>
  \<open>Container.resolve\<close>. The first argument bounds the depth of nested \<open>resolve\<close>
  calls; \<open>None\<close> means the bound was too small. The circular-dependency check comes
  before the \<open>try\<close>, so its raise does not pass through the \<open>finally\<close>.
\<close>

primrec resolve ::
  "nat \<Rightarrow> iface \<Rightarrow> string option \<Rightarrow> world \<times> container \<Rightarrow>
   ((pyexc + pyobject) \<times> world \<times> container) option" where
  "resolve 0 interface name wc = None"
| "resolve (Suc depth) interface name wc =
     (case wc of (w, c) \<Rightarrow>
      let w0 = w\<lparr>resolve_log := resolve_log w @ [(interface, resolving c)]\<rparr> in
      if interface \<in> resolving c then Some (Inl (circular interface), w0, c)
      else
        (case resolve_body (\<lambda>i. resolve depth i None) interface name
                (w0, c\<lparr>resolving := insert interface (resolving c)\<rparr>) of
           None \<Rightarrow> None
         | Some (r, w', c') \<Rightarrow> Some (r, w', c'\<lparr>resolving := resolving c' - {interface}\<rparr>)))"

text \<open>
  What every \<open>resolve\<close> leaves alone: the definitions, the lists they point to, and
  the in-progress set, which the \<open>finally\<close> restores. The ghost log only grows.
\<close>

definition frame :: "world \<times> container \<Rightarrow> world \<times> container \<Rightarrow> bool" where
  "frame wc wc' =
     (definitions (snd wc') = definitions (snd wc) \<and> resolving (snd wc') = resolving (snd wc) \<and>
      store (fst wc') = store (fst wc) \<and> next_addr (fst wc') = next_addr (fst wc) \<and>
      prefix (resolve_log (fst wc)) (resolve_log (fst wc')))"

text \<open>The log entries added between two worlds.\<close>

definition new_entries :: "world \<Rightarrow> world \<Rightarrow> (iface \<times> iface set) list" where
  "new_entries w w' = drop (length (resolve_log w)) (resolve_log w')"

text \<open>
  A log shows a re-entry when some \<open>resolve\<close> was entered for an interface that was
  in the in-progress set at that moment, that is, still being resolved.
\<close>

definition reentered :: "(iface \<times> iface set) list \<Rightarrow> bool" where
  "reentered log = (filter (\<lambda>e. fst e \<in> snd e) log \<noteq> [])"

text \<open>The result is the circular-dependency error of some interface.\<close>

definition is_circular :: "pyexc + 'a \<Rightarrow> bool" where
  "is_circular r =
     (case r of Inl (RuntimeError m) \<Rightarrow> take (length circular_prefix) m = circular_prefix | _ \<Rightarrow> False)"

text \<open>
  The state after a step keeps the frame, and a re-entry logged during the step implies
  \<open>circ\<close>.
\<close>

definition post :: "world \<times> container \<Rightarrow> bool \<Rightarrow> world \<times> container \<Rightarrow> bool" where
  "post wc circ wc' = (frame wc wc' \<and> (reentered (new_entries (fst wc) (fst wc')) \<longrightarrow> circ))"

definition rec_ok ::
  "(iface \<Rightarrow> world \<times> container \<Rightarrow> ((pyexc + pyobject) \<times> world \<times> container) option) \<Rightarrow> bool" where
  "rec_ok rec = (\<forall>i wc r wc'. rec i wc = Some (r, wc') \<longrightarrow> post wc (is_circular r) wc')"

definition rec_total ::
  "(iface \<Rightarrow> world \<times> container \<Rightarrow> ((pyexc + pyobject) \<times> world \<times> container) option) \<Rightarrow>
   (iface \<times> nat) list \<Rightarrow> iface set \<Rightarrow> bool" where
  "rec_total rec D R =
     (\<forall>i wc. definitions (snd wc) = D \<and> resolving (snd wc) = R \<longrightarrow> rec i wc \<noteq> None)"

text \<open>
  A client of one interface: it calls \<open>resolve(interface)\<close>, or registers the
  interface again with singleton scope.
\<close>

datatype di_cmd =
    Resolve
  | Register "implementation option" "string option" "callable option" "callable option"
      "(string \<times> pyobject) list"

fun is_Resolve :: "di_cmd \<Rightarrow> bool" where
  "is_Resolve Resolve = True"
| "is_Resolve (Register impl name factory async_factory kwargs) = False"

text \<open>
  Running a sequence of such commands; the result lists what each \<open>resolve\<close>
  returned or raised (\<open>None\<close> when it did not return within the depth bound, after
  which the run stops).
\<close>

fun run_cmds ::
  "(iface \<Rightarrow> class_decl) \<Rightarrow> nat \<Rightarrow> iface \<Rightarrow> di_cmd list \<Rightarrow> world \<times> container \<Rightarrow>
   (pyexc + pyobject) option list" where
  "run_cmds classes depth interface [] wc = []"
| "run_cmds classes depth interface (Resolve # cs) wc =
     (case resolve depth interface None wc of
        None \<Rightarrow> [None]
      | Some (r, wc') \<Rightarrow> Some r # run_cmds classes depth interface cs wc')"
| "run_cmds classes depth interface (Register impl name factory async_factory kwargs # cs) wc =
     run_cmds classes depth interface cs
       (register classes interface impl SINGLETON name factory async_factory kwargs wc)"

section \<open>Request dispatcher (src/mem0\_mcp/core/server.py)\<close>

type_synonym kwargs = "(string \<times> pyval) list"

text \<open>Python truthiness and \<open>str\<close> of the scalar values.\<close>

fun truthy :: "pyval \<Rightarrow> bool" where
  "truthy PNone = False"
| "truthy (PBool b) = b"
| "truthy (PInt i) = (i \<noteq> 0)"
| "truthy (PStr s) = (s \<noteq> [])"

fun str_nat :: "nat \<Rightarrow> string" where
  "str_nat n = (if n < 10 then [''0123456789'' ! n] else str_nat (n div 10) @ [''0123456789'' ! (n mod 10)])"

fun py_str :: "pyval \<Rightarrow> string" where
  "py_str PNone = ''None''"
| "py_str (PBool b) = (if b then ''True'' else ''False'')"
| "py_str (PInt i) = (if i < 0 then CHR ''-'' # str_nat (nat (- i)) else str_nat (nat i))"
| "py_str (PStr s) = s"

text \<open>\<open>kwargs.get(key)\<close>: the value, or \<open>None\<close> when the key is absent.\<close>

definition kwargs_get :: "kwargs \<Rightarrow> string \<Rightarrow> pyval" where
  "kwargs_get kw key = (case map_of kw key of None \<Rightarrow> PNone | Some v \<Rightarrow> v)"

record OperationContext =
  tool_name :: string
  operation_name :: string
  user_id :: pyval
  session_id :: pyval

text \<open>
  A middleware plugin with its two hooks and its priority, and an operation handler;
  every hook may raise. \<open>PluginRegistry.get_middleware_chain\<close> sorts the middleware
  plugins by priority with Python's stable \<open>sorted\<close>.
\<close>

record MiddlewarePlugin =
  mw_name :: string
  get_priority :: int
  process_request :: "string \<Rightarrow> string \<Rightarrow> kwargs \<Rightarrow> pyexc + kwargs"
  process_response :: "string \<Rightarrow> string \<Rightarrow> kwargs \<Rightarrow> pyexc + kwargs"

type_synonym operation_handler = "OperationContext \<Rightarrow> kwargs \<Rightarrow> pyexc + kwargs"

definition get_middleware_chain :: "MiddlewarePlugin list \<Rightarrow> MiddlewarePlugin list" where
  "get_middleware_chain mws = sort_key get_priority mws"

text \<open>
  \<open>PluginRegistry.get_operation_handlers\<close> followed by the \<open>update\<close> with the tool
  module's built-in operations: the operation maps of the plugins that target the tool
  are merged in plugin order, then the built-in ones on top.
\<close>

fun get_operation_handlers ::
  "(string \<times> (string \<rightharpoonup> operation_handler)) list \<Rightarrow> string \<Rightarrow> (string \<rightharpoonup> operation_handler)" where
  "get_operation_handlers [] tool = Map.empty"
| "get_operation_handlers ((plugin_tool, ops) # ps) tool =
     (if plugin_tool = tool then ops ++ get_operation_handlers ps tool
      else get_operation_handlers ps tool)"

text \<open>
  What the dispatcher does to the outside world, as a ghost log: a middleware's
  \<open>process_request\<close> or \<open>process_response\<close> is called, an operation handler is run,
  an event is emitted.
\<close>

datatype effect =
    ProcessRequest string
  | HandlerRun string
  | ProcessResponse string
  | EventEmitted string

text \<open>The two middleware loops of \<open>tool_handler\<close>; a raise ends the loop.\<close>

fun apply_requests ::
  "MiddlewarePlugin list \<Rightarrow> string \<Rightarrow> string \<Rightarrow> kwargs \<Rightarrow> effect list \<Rightarrow>
   (pyexc + kwargs) \<times> effect list" where
  "apply_requests [] tool oper kw log = (Inr kw, log)"
| "apply_requests (m # ms) tool oper kw log =
     (case process_request m tool oper kw of
        Inl e \<Rightarrow> (Inl e, log @ [ProcessRequest (mw_name m)])
      | Inr kw' \<Rightarrow> apply_requests ms tool oper kw' (log @ [ProcessRequest (mw_name m)]))"

fun apply_responses ::
  "MiddlewarePlugin list \<Rightarrow> string \<Rightarrow> string \<Rightarrow> kwargs \<Rightarrow> effect list \<Rightarrow>
   (pyexc + kwargs) \<times> effect list" where
  "apply_responses [] tool oper res log = (Inr res, log)"
| "apply_responses (m # ms) tool oper res log =
     (case process_response m tool oper res of
        Inl e \<Rightarrow> (Inl e, log @ [ProcessResponse (mw_name m)])
      | Inr res' \<Rightarrow> apply_responses ms tool oper res' (log @ [ProcessResponse (mw_name m)]))"

definition context_data :: "OperationContext \<Rightarrow> pydata" where
  "context_data c =
     Obj ''OperationContext''
       [(''tool_name'', Val (PStr (tool_name c))), (''operation_name'', Val (PStr (operation_name c))),
        (''user_id'', Val (user_id c)), (''session_id'', Val (session_id c))]"

definition dict_data :: "kwargs \<Rightarrow> pydata" where
  "dict_data kw = Dict (map (\<lambda>(k, v). (k, Val v)) kw)"

text \<open>
  \<open>tool_handler\<close>, the closure that \<open>_register_tool_with_operations\<close> registers for
  a tool: the returned payload or the exception that escapes, the ghost log of effects,
  and the event bus afterwards. Operation names are the string keys of
  \<open>operation_handlers\<close>; a truthy value of another scalar type is in no dictionary of
  strings.
\<close>

definition tool_handler ::
  "callables \<Rightarrow> MiddlewarePlugin list \<Rightarrow> (string \<rightharpoonup> operation_handler) \<Rightarrow> string \<Rightarrow> kwargs \<Rightarrow>
   EventBus \<Rightarrow> (pyexc + kwargs) \<times> effect list \<times> EventBus" where
  "tool_handler env mws operation_handlers tool kw bus =
     (let operation = kwargs_get kw ''operation'' in
      if \<not> truthy operation then
        (Inr [(''error'', PStr ''Operation parameter is required'')], [], bus)
      else
        (case (case operation of PStr s \<Rightarrow> operation_handlers s | _ \<Rightarrow> None) of
           None \<Rightarrow>
             (Inr [(''error'', PStr (''Unknown operation: '' @ py_str operation))], [], bus)
         | Some handler \<Rightarrow>
             (let oper = py_str operation;
                  context = \<lparr>tool_name = tool, operation_name = oper,
                             user_id = kwargs_get kw ''user_id'',
                             session_id = kwargs_get kw ''session_id''\<rparr>
              in case apply_requests (get_middleware_chain mws) tool oper kw [] of
                   (Inl e, log1) \<Rightarrow> (Inl e, log1, bus)
                 | (Inr kw', log1) \<Rightarrow>
                     (case handler context kw' of
                        Inl e \<Rightarrow> (Inl e, log1 @ [HandlerRun oper], bus)
                      | Inr result \<Rightarrow>
                          (case apply_responses (rev (get_middleware_chain mws)) tool oper result
                                  (log1 @ [HandlerRun oper]) of
                             (Inl e, log2) \<Rightarrow> (Inl e, log2, bus)
                           | (Inr result', log2) \<Rightarrow>
                               (case emit env (''tool.'' @ tool @ ''.'' @ oper)
                                       [(''params'', dict_data kw'), (''result'', dict_data result'),
                                        (''context'', context_data context)] None [] bus of
                                  (rs, invoked, bus') \<Rightarrow>
                                    (Inr result',
                                     log2 @ [EventEmitted (''tool.'' @ tool @ ''.'' @ oper)],
                                     bus')))))))"

section \<open>Concrete buses, containers and registries used by the witnesses\<close>

text \<open>
  An environment in which callable 3 raises and every other callable \<open>c\<close> returns
  \<open>c\<close>; filters accept, middleware passes the event on, no referent is dead.
\<close>

definition env0 :: callables where
  "env0 = \<lparr>call = (\<lambda>c e. if c = 3 then Inl (OtherError ''boom'') else Inr (PInt (int c))),
           test = (\<lambda>f e. True), mw = (\<lambda>m e. Some e), dead = (\<lambda>c. False)\<rparr>"

definition h_high :: EventHandler where
  "h_high = \<lparr>callback = 1, priority = HIGH, filter_h = None, once = False, weak = False\<rparr>"

definition h_low :: EventHandler where
  "h_low = \<lparr>callback = 2, priority = LOW, filter_h = None, once = False, weak = False\<rparr>"

definition bus_x :: EventBus where
  "bus_x = subscribe_calls [(''x'', h_low), (''x'', h_high)] (EventBus_init 1000)"







text \<open>An operation handler that returns its arguments, and a pass-through middleware.\<close>

definition echo_handler :: operation_handler where
  "echo_handler c kw = Inr kw"

definition mw_log :: MiddlewarePlugin where
  "mw_log = \<lparr>mw_name = ''logging'', get_priority = 10,
             process_request = (\<lambda>t oper kw. Inr kw), process_response = (\<lambda>t oper r. Inr r)\<rparr>"


text \<open>
  Two services whose constructors require each other, a logger without constructor
  parameters, and containers in which they are registered as singletons.
\<close>

definition cls_A :: class_decl where
  "cls_A = \<lparr>c_name = ''ServiceA'',
            c_params = [\<lparr>p_name = ''b'', annotation = Some ''ServiceB'', has_default = False\<rparr>],
            c_init_raises = None, c_ainit = None\<rparr>"

definition cls_B :: class_decl where
  "cls_B = \<lparr>c_name = ''ServiceB'',
            c_params = [\<lparr>p_name = ''a'', annotation = Some ''ServiceA'', has_default = False\<rparr>],
            c_init_raises = None, c_ainit = None\<rparr>"

definition cls_Logger :: class_decl where
  "cls_Logger = \<lparr>c_name = ''Logger'', c_params = [], c_init_raises = None, c_ainit = None\<rparr>"

definition cls_FileLogger :: class_decl where
  "cls_FileLogger = \<lparr>c_name = ''FileLogger'', c_params = [], c_init_raises = None, c_ainit = None\<rparr>"

definition classes0 :: "iface \<Rightarrow> class_decl" where
  "classes0 i = (if i = ''ServiceA'' then cls_A else if i = ''ServiceB'' then cls_B else cls_Logger)"

definition wc_cyclic :: "world \<times> container" where
  "wc_cyclic = register classes0 ''ServiceB'' None SINGLETON None None None []
                (register classes0 ''ServiceA'' None SINGLETON None None None []
                   (world_init, Container_init))"

definition wc_logger :: "world \<times> container" where
  "wc_logger = register classes0 ''Logger'' None SINGLETON None None None []
                 (world_init, Container_init)"
section \<open>Event bus: ordering of the handler lists\<close>















section \<open>Event bus: what one emit does\<close>





lemma add_to_history_fields [simp]:
  "handlers (add_to_history e bus) = handlers bus"
  "middleware (add_to_history e bus) = middleware bus"
  by (simp_all add: add_to_history_def Let_def)







section \<open>Container: what resolve preserves\<close>

lemma is_circular_circular [simp]: "is_circular (Inl (circular i))"
  by (simp add: is_circular_def circular_def)

lemma is_circular_Inr [simp]: "\<not> is_circular (Inr v)"
  by (simp add: is_circular_def)

lemma is_circular_ValueError: "is_ValueError e \<Longrightarrow> \<not> is_circular (Inl e)"
  by (cases e) (simp_all add: is_circular_def is_ValueError_def)

lemma frame_refl [simp]: "frame wc wc"
  by (simp add: frame_def)

lemma frame_trans: "frame a b \<Longrightarrow> frame b c \<Longrightarrow> frame a c"
  unfolding frame_def by (auto intro: prefix_order.trans)

lemma new_entries_trans:
  "frame a b \<Longrightarrow> frame b c \<Longrightarrow>
   new_entries (fst a) (fst c) = new_entries (fst a) (fst b) @ new_entries (fst b) (fst c)"
  unfolding frame_def new_entries_def by (auto simp: prefix_def)

lemma reentered_append [simp]: "reentered (xs @ ys) = (reentered xs \<or> reentered ys)"
  by (simp add: reentered_def)

lemma reentered_Nil [simp]: "\<not> reentered []"
  by (simp add: reentered_def)

lemma new_entries_same [simp]: "new_entries w w = []"
  by (simp add: new_entries_def)

lemma post_refl [simp]: "post wc b wc"
  by (simp add: post_def)

lemma post_trans:
  "post a False b \<Longrightarrow> post b circ c \<Longrightarrow> post a circ c"
  unfolding post_def using new_entries_trans [of a b c] by (auto intro: frame_trans)


lemma post_weaken: "post a False b \<Longrightarrow> post a c b"
  by (simp add: post_def)

lemma is_circular_Inl_poly:
  "is_circular (Inl e :: pyexc + 'a) = is_circular (Inl e :: pyexc + 'b)"
  by (simp add: is_circular_def)

lemma post_call_callable: "call_callable f wc = (r, wc') \<Longrightarrow> post wc b wc'"
  by (cases wc; cases f) (auto simp: call_callable_def post_def frame_def new_entries_def)

lemma post_construct: "construct cls kw wc = (r, wc') \<Longrightarrow> post wc b wc'"
  by (cases wc)
     (auto simp: construct_def post_def frame_def new_entries_def split: if_splits option.splits)

lemma wire_params_post:
  assumes "rec_ok rec"
  shows "wire_params rec kw ps acc wc = Some (r, wc') \<Longrightarrow> post wc (is_circular r) wc'"
proof (induction ps arbitrary: acc wc)
  case Nil
  then show ?case by simp
next
  case (Cons p ps)
  show ?case
  proof (cases "map_of kw (p_name p)")
    case (Some v)
    with Cons.prems show ?thesis by (simp add: Cons.IH)
  next
    case None
    note kwNone = None
    show ?thesis
    proof (cases "annotation p")
      case None
      with Cons.prems kwNone show ?thesis by (simp add: Cons.IH)
    next
      case (Some a)
      show ?thesis
      proof (cases "rec a wc")
        case None
        with Cons.prems kwNone Some show ?thesis by simp
      next
        case rs: (Some res)
        obtain ra wc1 where res: "res = (ra, wc1)" by (cases res)
        from assms rs res have p1: "post wc (is_circular ra) wc1"
          unfolding rec_ok_def by blast
        show ?thesis
        proof (cases ra)
          case (Inr v)
          with p1 have q: "post wc False wc1" by simp
          from Cons.prems kwNone Some rs res Inr
          have "wire_params rec kw ps (AList.update (p_name p) v acc) wc1 = Some (r, wc')" by simp
          then have "post wc1 (is_circular r) wc'" by (rule Cons.IH)
          with q show ?thesis by (rule post_trans)
        next
          case (Inl e)
          show ?thesis
          proof (cases "is_ValueError e")
            case True
            then have "\<not> is_circular ra" unfolding Inl by (rule is_circular_ValueError)
            with p1 have q: "post wc False wc1" by simp
            show ?thesis
            proof (cases "has_default p")
              case True
              from Cons.prems kwNone Some rs res Inl \<open>is_ValueError e\<close> True
              have "wire_params rec kw ps acc wc1 = Some (r, wc')" by simp
              then have "post wc1 (is_circular r) wc'" by (rule Cons.IH)
              with q show ?thesis by (rule post_trans)
            next
              case False
              from Cons.prems kwNone Some rs res Inl \<open>is_ValueError e\<close> False
              have "r = Inl e" "wc' = wc1" by simp_all
              with q show ?thesis by (simp add: post_weaken)
            qed
          next
            case False
            from Cons.prems kwNone Some rs res Inl False
            have "r = Inl e" "wc' = wc1" by simp_all
            with p1 Inl show ?thesis by (simp add: is_circular_def)
          qed
        qed
      qed
    qed
  qed
qed


lemma post_singletons [simp]:
  "post wc b (w', c'\<lparr>singletons := x\<rparr>) = post wc b (w', c')"
  by (simp add: post_def frame_def)

lemma post_request_scope [simp]:
  "post wc b (w', c'\<lparr>request_scope := x\<rparr>) = post wc b (w', c')"
  by (simp add: post_def frame_def)

lemma create_instance_post:
  assumes ok: "rec_ok rec" and c: "create_instance rec d wc = Some (r, wc')"
  shows "post wc (is_circular r) wc'"
proof (cases "d_implementation d")
  case (Value v)
  with c show ?thesis by (simp add: create_instance_def)
next
  case (Function f)
  with c show ?thesis
    by (auto simp: create_instance_def split: option.splits intro: post_call_callable sym)
next
  case (Class cls)
  show ?thesis
  proof (cases "d_async_factory d")
    case (Some f)
    with c Class show ?thesis
      by (auto simp: create_instance_def intro: post_call_callable sym)
  next
    case None
    note af = None
    show ?thesis
    proof (cases "d_factory d")
      case (Some f)
      with c Class af show ?thesis
        by (auto simp: create_instance_def intro: post_call_callable sym)
    next
      case None
      show ?thesis
      proof (cases "wire_params rec (d_kwargs d) (c_params cls) [] wc")
        case None
        with c Class af \<open>d_factory d = None\<close> show ?thesis by (simp add: create_instance_def)
      next
        case (Some res)
        obtain rw wc1 where res: "res = (rw, wc1)" by (cases res)
        from wire_params_post [OF ok] Some res have p1: "post wc (is_circular rw) wc1" by simp
        show ?thesis
        proof (cases rw)
          case (Inl e)
          with c Class af \<open>d_factory d = None\<close> Some res have "r = Inl e" "wc' = wc1"
            by (simp_all add: create_instance_def)
          with p1 Inl show ?thesis by (simp add: is_circular_def)
        next
          case (Inr kw)
          with c Class af \<open>d_factory d = None\<close> Some res have "construct cls kw wc1 = (r, wc')"
            by (simp add: create_instance_def)
          then have "post wc1 (is_circular r) wc'" by (rule post_construct)
          moreover from p1 Inr have "post wc False wc1" by simp
          ultimately show ?thesis by (rule post_trans [rotated])
        qed
      qed
    qed
  qed
qed

lemma resolve_singleton_post:
  assumes ok: "rec_ok rec" and c: "resolve_singleton rec d wc = Some (r, wc')"
  shows "post wc (is_circular r) wc'"
proof (cases "map_of (singletons (snd wc)) (d_interface d)")
  case (Some inst)
  with c show ?thesis by (simp add: resolve_singleton_def)
next
  case None
  show ?thesis
  proof (cases "create_instance rec d wc")
    case None
    with c \<open>map_of (singletons (snd wc)) (d_interface d) = None\<close> show ?thesis
      by (simp add: resolve_singleton_def)
  next
    case (Some res)
    obtain rc w1 c1 where res: "res = (rc, w1, c1)" by (cases res)
    from create_instance_post [OF ok] Some res have "post wc (is_circular rc) (w1, c1)" by simp
    with c \<open>map_of (singletons (snd wc)) (d_interface d) = None\<close> Some res show ?thesis
      by (cases rc) (auto simp: resolve_singleton_def)
  qed
qed

lemma resolve_request_post:
  assumes ok: "rec_ok rec" and c: "resolve_request rec d wc = Some (r, wc')"
  shows "post wc (is_circular r) wc'"
proof (cases "map_of (request_scope (snd wc)) (d_interface d)")
  case (Some inst)
  with c show ?thesis by (simp add: resolve_request_def)
next
  case None
  show ?thesis
  proof (cases "create_instance rec d wc")
    case None
    with c \<open>map_of (request_scope (snd wc)) (d_interface d) = None\<close> show ?thesis
      by (simp add: resolve_request_def)
  next
    case (Some res)
    obtain rc w1 c1 where res: "res = (rc, w1, c1)" by (cases res)
    from create_instance_post [OF ok] Some res have "post wc (is_circular rc) (w1, c1)" by simp
    with c \<open>map_of (request_scope (snd wc)) (d_interface d) = None\<close> Some res show ?thesis
      by (cases rc) (auto simp: resolve_request_def)
  qed
qed

lemma resolve_body_post:
  assumes ok: "rec_ok rec" and c: "resolve_body rec i name wc = Some (r, wc')"
  shows "post wc (is_circular r) wc'"
proof (cases "select_definition i name (definitions_for wc i)")
  case (Inl e)
  with c have "wc' = wc" by (simp add: resolve_body_def)
  then show ?thesis by simp
next
  case (Inr d)
  with c show ?thesis
    by (cases "d_scope d")
       (auto simp: resolve_body_def resolve_transient_def
             intro: resolve_singleton_post [OF ok] resolve_request_post [OF ok] create_instance_post [OF ok])
qed

lemma resolve_post: "rec_ok (\<lambda>i. resolve depth i name)"
proof (induction depth arbitrary: name)
  case 0
  show ?case by (simp add: rec_ok_def)
next
  case (Suc depth)
  have ok: "rec_ok (\<lambda>i. resolve depth i None)" by (rule Suc.IH)
  show ?case
    unfolding rec_ok_def
  proof (intro allI impI)
    fix i wc r wc'
    assume a: "resolve (Suc depth) i name wc = Some (r, wc')"
    obtain w c where wc: "wc = (w, c)" by (cases wc)
    let ?w0 = "w\<lparr>resolve_log := resolve_log w @ [(i, resolving c)]\<rparr>"
    show "post wc (is_circular r) wc'"
    proof (cases "i \<in> resolving c")
      case True
      with a wc have "r = Inl (circular i)" "wc' = (?w0, c)" by (simp_all add: Let_def)
      then show ?thesis by (simp add: wc post_def frame_def)
    next
      case False
      let ?c1 = "c\<lparr>resolving := insert i (resolving c)\<rparr>"
      from a wc False obtain w2 c2 where
        b: "resolve_body (\<lambda>i. resolve depth i None) i name (?w0, ?c1) = Some (r, w2, c2)"
        and w': "wc' = (w2, c2\<lparr>resolving := resolving c2 - {i}\<rparr>)"
        by (auto simp: Let_def split: option.splits)
      from resolve_body_post [OF ok b] have p: "post (?w0, ?c1) (is_circular r) (w2, c2)" .
      then have f: "frame (?w0, ?c1) (w2, c2)" by (simp add: post_def)
      then obtain new where n: "resolve_log w2 = resolve_log w @ (i, resolving c) # new"
        by (auto simp: frame_def prefix_def)
      have ne1: "new_entries ?w0 w2 = new" by (simp add: new_entries_def n)
      have ne2: "new_entries w w2 = (i, resolving c) # new" by (simp add: new_entries_def n)
      have "frame (w, c) (w2, c2\<lparr>resolving := resolving c2 - {i}\<rparr>)"
        using f False by (auto simp: frame_def n)
      moreover have "reentered (new_entries w w2) \<longrightarrow> is_circular r"
        using p False by (simp add: post_def ne1 ne2 reentered_def)
      ultimately show ?thesis by (simp add: wc w' post_def new_entries_def)
    qed
  qed
qed

lemma ex_triple: "\<exists>a b c. x = (a, b, c)"
  by (cases x) auto

lemma post_frame_fields:
  "post wc b wc' \<Longrightarrow> definitions (snd wc') = definitions (snd wc) \<and> resolving (snd wc') = resolving (snd wc)"
  by (simp add: post_def frame_def)

lemma wire_params_total:
  assumes ok: "rec_ok rec" and tot: "rec_total rec D R"
  shows "definitions (snd wc) = D \<Longrightarrow> resolving (snd wc) = R \<Longrightarrow>
         wire_params rec kw ps acc wc \<noteq> None"
proof (induction ps arbitrary: acc wc)
  case Nil
  then show ?case by simp
next
  case (Cons p ps)
  show ?case
  proof (cases "map_of kw (p_name p)")
    case (Some v)
    then show ?thesis using Cons by simp
  next
    case None
    note kwNone = None
    show ?thesis
    proof (cases "annotation p")
      case None
      then show ?thesis using Cons kwNone by simp
    next
      case (Some a)
      from tot Cons.prems have "rec a wc \<noteq> None" unfolding rec_total_def by blast
      then obtain ra wc1 where rs: "rec a wc = Some (ra, wc1)" by (cases "rec a wc") auto
      from ok rs have "post wc (is_circular ra) wc1" unfolding rec_ok_def by blast
      from post_frame_fields [OF this] Cons.prems
      have d: "definitions (snd wc1) = D" "resolving (snd wc1) = R" by simp_all
      have "\<And>acc'. wire_params rec kw ps acc' wc1 \<noteq> None" using d by (rule Cons.IH)
      then show ?thesis using kwNone Some rs by (cases ra) simp_all
    qed
  qed
qed

lemma create_instance_total:
  assumes ok: "rec_ok rec" and tot: "rec_total rec D R"
    and d: "definitions (snd wc) = D" "resolving (snd wc) = R"
  shows "create_instance rec df wc \<noteq> None"
proof -
  have w: "\<And>cls. wire_params rec (d_kwargs df) (c_params cls) [] wc \<noteq> None"
    using wire_params_total [OF ok tot d] .
  show ?thesis
  proof (cases "d_implementation df")
    case (Value v)
    then show ?thesis by (simp add: create_instance_def)
  next
    case (Function f)
    then show ?thesis by (simp add: create_instance_def ex_triple split: option.splits)
  next
    case (Class cls)
    obtain rw wc1 where "wire_params rec (d_kwargs df) (c_params cls) [] wc = Some (rw, wc1)"
      using w [of cls] by (cases "wire_params rec (d_kwargs df) (c_params cls) [] wc") auto
    with Class show ?thesis
      by (cases rw) (simp_all add: create_instance_def ex_triple split: option.splits)
  qed
qed

lemma resolve_body_total:
  assumes ok: "rec_ok rec" and tot: "rec_total rec D R"
    and d: "definitions (snd wc) = D" "resolving (snd wc) = R"
  shows "resolve_body rec i name wc \<noteq> None"
proof -
  show ?thesis
  proof (cases "select_definition i name (definitions_for wc i)")
    case (Inl e)
    then show ?thesis by (simp add: resolve_body_def)
  next
    case (Inr df)
    obtain rc w1 c1 where c: "create_instance rec df wc = Some (rc, w1, c1)"
      using create_instance_total [OF ok tot d, of df] by (cases "create_instance rec df wc") auto
    show ?thesis
      using Inr c
      by (cases "d_scope df"; cases rc)
         (simp_all add: resolve_body_def resolve_singleton_def resolve_request_def
            resolve_transient_def split: option.splits)
  qed
qed

lemma resolve_total:
  "card (fst ` set (definitions c) - resolving c) < depth \<Longrightarrow> resolve depth i name (w, c) \<noteq> None"
proof (induction depth arbitrary: i name w c)
  case 0
  then show ?case by simp
next
  case (Suc depth)
  let ?w0 = "w\<lparr>resolve_log := resolve_log w @ [(i, resolving c)]\<rparr>"
  let ?c1 = "c\<lparr>resolving := insert i (resolving c)\<rparr>"
  show ?case
  proof (cases "i \<in> resolving c")
    case True
    then show ?thesis by (simp add: Let_def)
  next
    case False
    have "resolve_body (\<lambda>i. resolve depth i None) i name (?w0, ?c1) \<noteq> None"
    proof (cases "i \<in> fst ` set (definitions c)")
      case True
      have fin: "finite (fst ` set (definitions c) - resolving c)" by simp
      have "fst ` set (definitions c) - insert i (resolving c)
            = (fst ` set (definitions c) - resolving c) - {i}" by auto
      moreover have "i \<in> fst ` set (definitions c) - resolving c" using True False by simp
      ultimately have "card (fst ` set (definitions c) - insert i (resolving c))
            < card (fst ` set (definitions c) - resolving c)"
        using card_Diff1_less [OF fin] by metis
      with Suc.prems have lt: "card (fst ` set (definitions c) - insert i (resolving c)) < depth"
        by simp
      have tot: "rec_total (\<lambda>i. resolve depth i None) (definitions c) (insert i (resolving c))"
        unfolding rec_total_def
      proof (intro allI impI)
        fix j and wc :: "world \<times> container"
        assume a: "definitions (snd wc) = definitions c \<and> resolving (snd wc) = insert i (resolving c)"
        obtain w' c' where wc: "wc = (w', c')" by (cases wc)
        from a wc lt have "card (fst ` set (definitions c') - resolving c') < depth" by simp
        then show "resolve depth j None wc \<noteq> None" unfolding wc by (rule Suc.IH)
      qed
      show ?thesis
        by (rule resolve_body_total [OF resolve_post tot]) simp_all
    next
      case False
      then have "map_of (definitions c) i = None" by (simp add: map_of_eq_None_iff)
      then show ?thesis
        by (simp add: resolve_body_def definitions_for_def select_definition_def)
    qed
    with False show ?thesis by (auto simp: Let_def split: option.splits)
  qed
qed

text \<open>The equations that evaluate the container operations on concrete states.\<close>

lemmas di_defs = register_def world_init_def Container_init_def new_list_def name_given_def Let_def
  classes0_def cls_A_def cls_B_def cls_Logger_def resolve_body_def definitions_for_def select_definition_def
  resolve_singleton_def resolve_request_def resolve_transient_def create_instance_def construct_def
  call_callable_def is_ValueError_def


section \<open>C2: handler lists are priority-ordered and emit follows them\<close>






section \<open>C8: one-time handlers\<close>










section \<open>C9: dispatch of an absent or unknown operation\<close>

text \<open>
  C9. When the \<open>operation\<close> argument is absent, or is a value that names no handler
  among the operation handlers merged for the tool (those of the plugins, then the
  built-in ones), the dispatcher returns an error payload that says which of the two it
  was, the log of effects is empty (no middleware hook was called, no handler ran, no
  event was emitted) and the event bus is as before.
\<close>

theorem dispatch_unknown_operation:
  assumes "map_of kw ''operation'' = None \<or>
           (\<exists>v. map_of kw ''operation'' = Some v \<and>
                (\<forall>s. v = PStr s \<longrightarrow> (get_operation_handlers ps tool ++ builtin) s = None))"
  shows "tool_handler env mws (get_operation_handlers ps tool ++ builtin) tool kw bus =
           (Inr [(''error'',
                  PStr (if truthy (kwargs_get kw ''operation'')
                        then ''Unknown operation: '' @ py_str (kwargs_get kw ''operation'')
                        else ''Operation parameter is required''))],
            [], bus)"
proof -
  let ?ops = "get_operation_handlers ps tool ++ builtin"
  from assms have "(case kwargs_get kw ''operation'' of PStr s \<Rightarrow> ?ops s | _ \<Rightarrow> None) = None
                   \<or> \<not> truthy (kwargs_get kw ''operation'')"
    by (auto simp: kwargs_get_def split: pyval.splits)
  then show ?thesis
    by (auto simp: tool_handler_def Let_def)
qed

theorem dispatch_unknown_operation_witness:
  "map_of [(''operation'', PStr ''nonexistent_op'')] ''operation'' = Some (PStr ''nonexistent_op'') \<and>
   (get_operation_handlers [] ''mem0_memory'' ++ [''add'' \<mapsto> echo_handler]) ''nonexistent_op'' = None \<and>
   tool_handler env0 [mw_log] (get_operation_handlers [] ''mem0_memory'' ++ [''add'' \<mapsto> echo_handler])
      ''mem0_memory'' [(''operation'', PStr ''nonexistent_op'')] bus_x =
        (Inr [(''error'', PStr ''Unknown operation: nonexistent_op'')], [], bus_x)"
proof -
  have a: "map_of [(''operation'', PStr ''nonexistent_op'')] ''operation'' = Some (PStr ''nonexistent_op'')"
    by simp
  have b: "(get_operation_handlers [] ''mem0_memory'' ++ [''add'' \<mapsto> echo_handler]) ''nonexistent_op'' = None"
    by simp
  have c: "map_of [(''operation'', PStr ''nonexistent_op'')] ''operation'' = None \<or>
           (\<exists>v. map_of [(''operation'', PStr ''nonexistent_op'')] ''operation'' = Some v \<and>
                (\<forall>s. v = PStr s \<longrightarrow>
                  (get_operation_handlers [] ''mem0_memory'' ++ [''add'' \<mapsto> echo_handler]) s = None))"
    using a b by simp
  from dispatch_unknown_operation [OF c, of env0 "[mw_log]" bus_x] a b
  show ?thesis by (simp add: kwargs_get_def)
qed

section \<open>C4: circular dependencies are detected\<close>

text \<open>
  C4. A call of \<open>resolve\<close> returns within a nesting depth of one more than the number
  of registered interfaces not yet in progress: it never recurses without bound. An
  interface that is asked for while it is in the in-progress set fails at once with the
  circular-dependency error; whenever some nested \<open>resolve\<close>, reached through
  constructor auto-wiring at any depth, asks for an interface that is still being
  resolved, the outermost call fails with a circular-dependency error as well; and in
  every case the in-progress set afterwards is what it was before the call.
\<close>

theorem resolve_cycle_detection:
  assumes "card (fst ` set (definitions c) - resolving c) < depth"
  shows "\<exists>r w' c'. resolve depth interface name (w, c) = Some (r, w', c') \<and>
           resolving c' = resolving c \<and>
           (interface \<in> resolving c \<longrightarrow> r = Inl (circular interface)) \<and>
           (reentered (new_entries w w') \<longrightarrow> is_circular r)"
proof -
  have "resolve depth interface name (w, c) \<noteq> None" using assms by (rule resolve_total)
  then obtain r w' c' where
    s: "resolve depth interface name (w, c) = Some (r, w', c')"
    by (cases "resolve depth interface name (w, c)") auto
  from resolve_post [of depth name] s have p: "post (w, c) (is_circular r) (w', c')"
    unfolding rec_ok_def by blast
  then have 1: "resolving c' = resolving c" by (simp add: post_def frame_def)
  from p have 2: "reentered (new_entries w w') \<longrightarrow> is_circular r" by (simp add: post_def)
  have 3: "interface \<in> resolving c \<longrightarrow> r = Inl (circular interface)"
  proof
    assume i: "interface \<in> resolving c"
    from assms obtain n where "depth = Suc n" by (cases depth) auto
    with s i show "r = Inl (circular interface)" by (simp add: Let_def)
  qed
  from s 1 2 3 show ?thesis by blast
qed

lemma wc_cyclic_fields:
  "definitions (snd wc_cyclic) = [(''ServiceA'', 0), (''ServiceB'', Suc 0)]"
  "resolving (snd wc_cyclic) = {}"
  by (simp_all add: wc_cyclic_def di_defs)

lemma resolve_cyclic_eval:
  "map_option fst (resolve 3 ''ServiceA'' None wc_cyclic) = Some (Inl (circular ''ServiceA''))"
  by (simp add: wc_cyclic_def di_defs eval_nat_numeral)

theorem resolve_cycle_detection_witness:
  "card (fst ` set (definitions (snd wc_cyclic)) - resolving (snd wc_cyclic)) < 3 \<and>
   map_option fst (resolve 3 ''ServiceA'' None wc_cyclic) = Some (Inl (circular ''ServiceA'')) \<and>
   (\<exists>r w' c'. resolve 3 ''ServiceA'' None wc_cyclic = Some (r, w', c') \<and>
       resolving c' = resolving (snd wc_cyclic) \<and>
       (reentered (new_entries (fst wc_cyclic) w') \<longrightarrow> is_circular r))"
proof -
  have h: "card (fst ` set (definitions (snd wc_cyclic)) - resolving (snd wc_cyclic)) < 3"
    by (simp add: wc_cyclic_fields)
  from resolve_cycle_detection [OF h, of "''ServiceA''" None "fst wc_cyclic"]
  have "\<exists>r w' c'. resolve 3 ''ServiceA'' None wc_cyclic = Some (r, w', c') \<and>
       resolving c' = resolving (snd wc_cyclic) \<and>
       (reentered (new_entries (fst wc_cyclic) w') \<longrightarrow> is_circular r)"
    by auto
  with h resolve_cyclic_eval show ?thesis by blast
qed

end
